theory Spec2Isabelle
  imports Complex_Main "HOL-Library.Multiset"
begin

section \<open>ParetoNMF: the topic-count search of \<^verbatim>\<open>src/paretonmf.py\<close>\<close>

text \<open>
  The class \<^verbatim>\<open>ParetoNMF\<close> keeps all of its search state in attributes of the
  instance, and its methods mutate them. The embedding is by explicit state passing: the
  instance is a record, a method takes the record and returns the outcome (a raised
  exception or a value) together with the record as the method left it, also when it
  raised.

  Conventions of the embedding:
  \<^item> Python integers are \<^typ>\<open>int\<close> or \<^typ>\<open>nat\<close>; the 64-bit range of numpy
    integers is not modelled (the numbers are document, topic and term counts).
  \<^item> Python floats are idealised as exact rationals (\<^typ>\<open>rat\<close>): rounding error, NaN
    and infinities are not modelled.
  \<^item> The code is Python 2 (\<^verbatim>\<open>dict.values()\<close> is a list there, which
    \<^verbatim>\<open>np.array\<close> needs), so \<^verbatim>\<open>round\<close> rounds halves away from zero.
  \<^item> Printing under \<^verbatim>\<open>pnmf_verbose\<close> changes no attribute and no result and is
    left out, and so are the hyperparameters that are only handed through to sklearn.
  \<^item> The leading underscore of private method names is dropped.
\<close>

subsection \<open>Exceptions and values\<close>

datatype exn = ZeroDivisionError | AttributeError | TypeError | ValueError | FactorizationError

text \<open>A configuration attribute that holds either the string \<^verbatim>\<open>'auto'\<close> or a number.\<close>

datatype 'a param = Auto | Val 'a

text \<open>
  A document-term matrix: its rows (one list of entries per document) and its number of
  columns, which \<^verbatim>\<open>shape[1]\<close> reports also when there is no row.
\<close>

record matrix =
  rows :: "rat list list"
  ncols :: nat

text \<open>An sklearn \<^verbatim>\<open>NMF\<close> object: its topic count and, once fitted, its components.\<close>

record nmf_obj =
  n_components :: int
  components :: "rat list list option"

text \<open>The attributes of a \<^verbatim>\<open>ParetoNMF\<close> instance. Those that \<^verbatim>\<open>__init__\<close> does
  not assign are absent (\<open>None\<close>) until a method assigns them.\<close>

record pareto_nmf =
  noise_pct :: "rat param"
  step :: "int param"
  start :: int
  max_steps :: int
  rich_topics :: int
  corpus_count :: "nat option"
  rich_content :: "int option"
  noise_content :: "int option"
  topic_count :: "int option"
  nmf :: "nmf_obj option"
  topic_labels :: "nat list option"
  topic_summary :: "(nat \<times> nat) list option"
  previous_nmf :: "nmf_obj option"

definition ParetoNMF_init :: "rat param \<Rightarrow> int param \<Rightarrow> int \<Rightarrow> int \<Rightarrow> pareto_nmf" where
  "ParetoNMF_init noise_pct0 step0 start0 max_steps0 =
     \<lparr>noise_pct = noise_pct0, step = step0, start = start0, max_steps = max_steps0,
      rich_topics = 0, corpus_count = None, rich_content = None, noise_content = None,
      topic_count = None, nmf = None, topic_labels = None, topic_summary = None,
      previous_nmf = None\<rparr>"

subsection \<open>numpy and builtin helpers\<close>

text \<open>\<^verbatim>\<open>np.cumsum\<close>: the running sums of a list.\<close>

fun cumsum_from :: "int \<Rightarrow> int list \<Rightarrow> int list" where
  "cumsum_from acc [] = []"
| "cumsum_from acc (x # xs) = (acc + x) # cumsum_from (acc + x) xs"

definition cumsum :: "int list \<Rightarrow> int list" where
  "cumsum xs = cumsum_from 0 xs"

text \<open>\<^verbatim>\<open>np.sort(a)[::-1]\<close> and \<^verbatim>\<open>sorted(a, reverse=True)\<close>: descending order.\<close>

definition sort_desc :: "int list \<Rightarrow> int list" where
  "sort_desc xs = rev (sort xs)"

text \<open>\<^verbatim>\<open>np.sum(a < c)\<close>: how many entries of \<open>a\<close> are below \<open>c\<close>.\<close>

definition count_less :: "int list \<Rightarrow> int \<Rightarrow> nat" where
  "count_less a c = length (filter (\<lambda>x. x < c) a)"

text \<open>\<^verbatim>\<open>int(x)\<close> on a float truncates towards zero.\<close>

definition py_int :: "rat \<Rightarrow> int" where
  "py_int x = (if 0 \<le> x then \<lfloor>x\<rfloor> else \<lceil>x\<rceil>)"

text \<open>Python 2's \<^verbatim>\<open>round(x)\<close>: to the nearest integer, halves away from zero.\<close>

definition py_round :: "rat \<Rightarrow> rat" where
  "py_round x = (if 0 \<le> x then of_int \<lfloor>x + 1 / 2\<rfloor> else of_int \<lceil>x - 1 / 2\<rceil>)"

subsection \<open>The stability check\<close>

text \<open>
  \<^verbatim>\<open>_stopping_condition\<close>, lines 250-272. \<^verbatim>\<open>topic_summary\<close> is a
  \<^verbatim>\<open>Counter\<close>: a dictionary from topic label to the number of documents with that
  label, here an association list. The local \<^verbatim>\<open>topics_with_rich_content\<close> is a
  function of the dictionary's values and the threshold.
\<close>

definition topics_with_rich_content :: "(nat \<times> nat) list \<Rightarrow> int \<Rightarrow> int" where
  "topics_with_rich_content summary rc =
     (let sorted_topics = sort_desc (map (\<lambda>kv. int (snd kv)) summary);
          cum_sum = cumsum sorted_topics
      in int (count_less cum_sum rc))"

definition stopping_condition :: "pareto_nmf \<Rightarrow> (exn + bool) \<times> pareto_nmf" where
  "stopping_condition s =
     (case topic_summary s of
        None \<Rightarrow> (Inl AttributeError, s)
      | Some summary \<Rightarrow>
          (case rich_content s of
             None \<Rightarrow> (Inl AttributeError, s)
           | Some rc \<Rightarrow>
               (let twrc = topics_with_rich_content summary rc
                in if twrc = rich_topics s then (Inr True, s)
                   else (Inr False, s\<lparr>rich_topics := twrc\<rparr>))))"



subsection \<open>The noise estimator\<close>

text \<open>
  \<^verbatim>\<open>_pareto_corpus_content\<close>, lines 274-301. The matrix is made a CSR matrix and
  passed through \<^verbatim>\<open>np.unique(...)[0]\<close>; numpy sees a sparse matrix as one opaque
  object, so the call hands the same matrix back and no row is dropped.
  \<^verbatim>\<open>token_count\<close> counts, per document, the entries that are greater than zero.
  The division by \<^verbatim>\<open>total_documents\<close> is the statement that can raise.
\<close>

definition token_count :: "matrix \<Rightarrow> int list" where
  "token_count m = map (\<lambda>row. int (length (filter (\<lambda>x. 0 < x) row))) (rows m)"

definition noise_estimate :: "matrix \<Rightarrow> rat \<Rightarrow> exn + rat" where
  "noise_estimate m n_percent =
     (let total_documents = length (rows m);
          sorted_token_count = sort_desc (token_count m);
          total_tokens = sum_list (token_count m);
          majority_information = py_int (of_int total_tokens * n_percent);
          majority_docs = count_less (cumsum sorted_token_count) majority_information
      in if total_documents = 0 then Inl ZeroDivisionError
         else Inr (1 - of_nat majority_docs / of_nat total_documents))"

definition pareto_corpus_content ::
  "matrix \<Rightarrow> rat \<Rightarrow> pareto_nmf \<Rightarrow> (exn + unit) \<times> pareto_nmf" where
  "pareto_corpus_content m n_percent s =
     (case noise_estimate m n_percent of
        Inl e \<Rightarrow> (Inl e, s)
      | Inr v \<Rightarrow> (Inr (), s\<lparr>noise_pct := Val v\<rparr>))"


subsection \<open>The step-size estimator\<close>

text \<open>\<^verbatim>\<open>_determine_auto_step_size\<close>, lines 303-317.\<close>

definition determine_auto_step_size ::
  "matrix \<Rightarrow> pareto_nmf \<Rightarrow> (exn + unit) \<times> pareto_nmf" where
  "determine_auto_step_size m s =
     (if length (rows m) = 0 then (Inl ZeroDivisionError, s)
      else
        (let s1 = s\<lparr>step := Val (py_int (py_round (of_nat (ncols m) / of_nat (length (rows m)))))\<rparr>
         in if step s1 = Val 0 then (Inr (), s1\<lparr>step := Val 1\<rparr>) else (Inr (), s1)))"

subsection \<open>The factorization capability\<close>

text \<open>
  sklearn's NMF is outside the repository. It is a parameter of the model: a function from
  the history of the factorization calls made so far (its answer may depend on hidden
  random state), the requested topic count and the matrix to either an exception or the
  pair \<open>(W, H)\<close>. Both \<^verbatim>\<open>fit_transform\<close> and \<^verbatim>\<open>fit\<close> go through it. The
  history is threaded beside the instance and records every call, also one that raised.
\<close>

datatype call = FitTransform int | Fit int

type_synonym factorizer = "call list \<Rightarrow> int \<Rightarrow> matrix \<Rightarrow> exn + (rat list list \<times> rat list list)"

type_synonym world = "call list \<times> pareto_nmf"

text \<open>The topic counts that the loop handed to \<^verbatim>\<open>fit_transform\<close>, read off a
  history of calls.\<close>

fun fit_transform_counts :: "call list \<Rightarrow> int list" where
  "fit_transform_counts [] = []"
| "fit_transform_counts (FitTransform k # cs) = k # fit_transform_counts cs"
| "fit_transform_counts (Fit k # cs) = fit_transform_counts cs"

text \<open>\<^verbatim>\<open>np.argmax\<close> of a row: the index of the first maximal entry.\<close>

fun argmax_from :: "nat \<Rightarrow> rat \<Rightarrow> nat \<Rightarrow> rat list \<Rightarrow> nat" where
  "argmax_from best_i best_v i [] = best_i"
| "argmax_from best_i best_v i (x # xs) =
     (if best_v < x then argmax_from i x (Suc i) xs
      else argmax_from best_i best_v (Suc i) xs)"

definition argmax :: "rat list \<Rightarrow> exn + nat" where
  "argmax row = (case row of [] \<Rightarrow> Inl ValueError | x # xs \<Rightarrow> Inr (argmax_from 0 x 1 xs))"

fun argmax_rows :: "rat list list \<Rightarrow> exn + nat list" where
  "argmax_rows [] = Inr []"
| "argmax_rows (row # W) =
     (case argmax row of
        Inl e \<Rightarrow> Inl e
      | Inr i \<Rightarrow> (case argmax_rows W of Inl e \<Rightarrow> Inl e | Inr idxs \<Rightarrow> Inr (i # idxs)))"

text \<open>\<^verbatim>\<open>np.apply_along_axis(func1d=np.argmax, axis=1, arr=W)\<close>; numpy refuses an
  array without rows.\<close>

definition apply_argmax :: "rat list list \<Rightarrow> exn + nat list" where
  "apply_argmax W = (if W = [] then Inl ValueError else argmax_rows W)"

text \<open>\<^verbatim>\<open>Counter(labels)\<close>: each label that occurs, with its number of occurrences.\<close>

definition Counter :: "nat list \<Rightarrow> (nat \<times> nat) list" where
  "Counter labels = map (\<lambda>l. (l, count_list labels l)) (remdups labels)"

text \<open>\<^verbatim>\<open>np.arange(a, b, d)\<close> on integers: \<open>\<lceil>(b - a) / d\<rceil>\<close> values from \<open>a\<close> in
  steps of \<open>d\<close>; a zero step is an error.\<close>

definition arange :: "int \<Rightarrow> int \<Rightarrow> int \<Rightarrow> exn + int list" where
  "arange a b d =
     (if d = 0 then Inl ZeroDivisionError
      else Inr (map (\<lambda>i. a + int i * d) [0..<nat (- ((a - b) div d))]))"

subsection \<open>The search\<close>

text \<open>\<^verbatim>\<open>evaluate\<close>, lines 203-213: resolving the \<^verbatim>\<open>'auto'\<close> settings, the
  threshold, and the topic counts to try.\<close>

definition evaluate_prepare :: "matrix \<Rightarrow> pareto_nmf \<Rightarrow> (exn + int list) \<times> pareto_nmf" where
  "evaluate_prepare m s =
     (case (if noise_pct s = Auto then pareto_corpus_content m (4 / 5) s else (Inr (), s)) of
        (Inl e, s1) \<Rightarrow> (Inl e, s1)
      | (Inr _, s1) \<Rightarrow>
     (case (if step s1 = Auto then determine_auto_step_size m s1 else (Inr (), s1)) of
        (Inl e, s2) \<Rightarrow> (Inl e, s2)
      | (Inr _, s2) \<Rightarrow>
     (let s3 = s2\<lparr>corpus_count := Some (length (rows m))\<rparr> in
      case noise_pct s3 of
        Auto \<Rightarrow> (Inl TypeError, s3)
      | Val p \<Rightarrow>
     (let rc = py_int (of_nat (length (rows m)) * (1 - p));
          s4 = s3\<lparr>rich_content := Some rc\<rparr>;
          s5 = s4\<lparr>noise_content := Some (int (length (rows m)) - rc)\<rparr> in
      case step s5 of
        Auto \<Rightarrow> (Inl TypeError, s5)
      | Val st \<Rightarrow>
     (case arange (start s5) (max_steps s5 * st + start s5) st of
        Inl e \<Rightarrow> (Inl e, s5)
      | Inr topic_array \<Rightarrow> (Inr topic_array, s5))))))"

text \<open>Lines 217-230: one factorization, the topic of every document, the topic sizes, and
  the stability check. The fitted object is handed on for line 248.\<close>

definition evaluate_fit ::
  "factorizer \<Rightarrow> matrix \<Rightarrow> int \<Rightarrow> world \<Rightarrow> (exn + bool \<times> nmf_obj) \<times> world" where
  "evaluate_fit F m k ws =
     (case ws of (w, s) \<Rightarrow>
     (let s1 = s\<lparr>topic_count := Some k\<rparr>; w1 = w @ [FitTransform k] in
      case F w k m of
        Inl e \<Rightarrow> (Inl e, (w1, s1))
      | Inr (W, H) \<Rightarrow>
     (let fitted = \<lparr>n_components = k, components = Some H\<rparr>;
          s2 = s1\<lparr>nmf := Some fitted\<rparr> in
      case apply_argmax W of
        Inl e \<Rightarrow> (Inl e, (w1, s2))
      | Inr labels \<Rightarrow>
     (let s3 = s2\<lparr>topic_labels := Some labels\<rparr>;
          s4 = s3\<lparr>topic_summary := Some (Counter labels)\<rparr> in
      case stopping_condition s4 of
        (Inl e, s5) \<Rightarrow> (Inl e, (w1, s5))
      | (Inr is_stable, s5) \<Rightarrow> (Inr (is_stable, fitted), (w1, s5))))))"

text \<open>Lines 231-246: the branch taken when the check reports stability.\<close>

definition evaluate_stop :: "factorizer \<Rightarrow> matrix \<Rightarrow> int \<Rightarrow> world \<Rightarrow> (exn + int option) \<times> world" where
  "evaluate_stop F m k ws =
     (case ws of (w, s) \<Rightarrow>
     (case step s of
        Auto \<Rightarrow> (Inl TypeError, (w, s))
      | Val st \<Rightarrow>
     (let s1 = s\<lparr>topic_count := Some (k - st)\<rparr>; w1 = w @ [Fit (k - st)] in
      case F w (k - st) m of
        Inl e \<Rightarrow> (Inl e, (w1, s1))
      | Inr _ \<Rightarrow>
     (case previous_nmf s1 of
        None \<Rightarrow> (Inl AttributeError, (w1, s1))
      | Some p \<Rightarrow> (Inr (Some (k - st)), (w1, s1\<lparr>nmf := Some p\<rparr>))))))"

text \<open>The loop body. \<open>Inr None\<close> is falling through to the next topic count,
  \<open>Inr (Some r)\<close> is \<^verbatim>\<open>return r\<close>.\<close>

definition evaluate_step :: "factorizer \<Rightarrow> matrix \<Rightarrow> int \<Rightarrow> world \<Rightarrow> (exn + int option) \<times> world" where
  "evaluate_step F m k ws =
     (case evaluate_fit F m k ws of
        (Inl e, ws1) \<Rightarrow> (Inl e, ws1)
      | (Inr (is_stable, fitted), (w1, s1)) \<Rightarrow>
          (if is_stable then evaluate_stop F m k (w1, s1)
           else (Inr None, (w1, s1\<lparr>previous_nmf := Some fitted\<rparr>))))"

text \<open>The \<^verbatim>\<open>for\<close> loop over the topic counts. When the counts run out the method
  ends without a \<^verbatim>\<open>return\<close> statement, so the call evaluates to Python's
  \<^verbatim>\<open>None\<close>, here \<open>Inr None\<close>.\<close>

fun evaluate_loop :: "factorizer \<Rightarrow> matrix \<Rightarrow> int list \<Rightarrow> world \<Rightarrow> (exn + int option) \<times> world" where
  "evaluate_loop F m [] ws = (Inr None, ws)"
| "evaluate_loop F m (k # ks) ws =
     (case evaluate_step F m k ws of
        (Inl e, ws1) \<Rightarrow> (Inl e, ws1)
      | (Inr (Some r), ws1) \<Rightarrow> (Inr (Some r), ws1)
      | (Inr None, ws1) \<Rightarrow> evaluate_loop F m ks ws1)"

definition evaluate :: "factorizer \<Rightarrow> matrix \<Rightarrow> world \<Rightarrow> (exn + int option) \<times> world" where
  "evaluate F m ws =
     (case ws of (w, s) \<Rightarrow>
     (case evaluate_prepare m s of
        (Inl e, s1) \<Rightarrow> (Inl e, (w, s1))
      | (Inr topic_array, s1) \<Rightarrow> evaluate_loop F m topic_array (w, s1)))"

subsection \<open>Concrete inputs\<close>

text \<open>A new instance as \<^verbatim>\<open>tweet_text_processor.py\<close> makes it:
  \<^verbatim>\<open>ParetoNMF(noise_pct=.20, step=1)\<close>, with the default start and step budget.\<close>

definition example_instance :: pareto_nmf where
  "example_instance = ParetoNMF_init (Val (1 / 5)) (Val 1) 2 100"

text \<open>Five documents over three terms, and a factorization capability that answers for
  one, two and three topics (and refuses any other topic count).\<close>

definition example_matrix :: matrix where
  "example_matrix = \<lparr>rows = [[1, 0, 0], [1, 0, 0], [0, 1, 0], [0, 1, 0], [0, 0, 1]], ncols = 3\<rparr>"

definition example_factorizer :: factorizer where
  "example_factorizer history k m =
     (if k = 1 then Inr ([[1], [1], [1], [1], [1]], [[1, 1, 1]])
      else if k = 2 then Inr ([[1, 0], [1, 0], [0, 1], [0, 1], [0, 1]], [[1, 0, 0], [0, 1, 1]])
      else if k = 3 then Inr ([[1, 0, 0], [1, 0, 0], [0, 1, 0], [0, 1, 0], [0, 0, 1]],
                              [[1, 0, 0], [0, 1, 0], [0, 0, 1]])
      else Inl ValueError)"

text \<open>Degenerate matrices (no document; documents without any term), a second corpus, an
  instance with both settings on \<^verbatim>\<open>'auto'\<close>, and one with a budget of one step.\<close>

definition empty_matrix :: matrix where
  "empty_matrix = \<lparr>rows = [], ncols = 3\<rparr>"

definition zero_matrix :: matrix where
  "zero_matrix = \<lparr>rows = [[0, 0], [0, 0]], ncols = 2\<rparr>"


definition auto_instance :: pareto_nmf where
  "auto_instance = ParetoNMF_init Auto Auto 2 100"

definition one_step_instance :: pareto_nmf where
  "one_step_instance = ParetoNMF_init (Val (1 / 5)) (Val 1) 2 1"




section \<open>Properties\<close>

subsection \<open>Running sums of counts\<close>







subsection \<open>The stability check\<close>


text \<open>
  C5, as the specification states it, fails: on the counts 10, 8 and 2 with threshold 15 the
  running sums are 10, 18 and 20, and only the first of them is below 15.
\<close>

theorem stopping_condition_example_counterexample:
  "\<not> (topics_with_rich_content [(0, 10), (1, 8), (2, 2)] 15 = 2 \<and>
      fst (stopping_condition
             (example_instance\<lparr>topic_summary := Some [(0, 10), (1, 8), (2, 2)],
                rich_content := Some 15, rich_topics := 2\<rparr>)) = Inr True)"
  by (simp add: topics_with_rich_content_def sort_desc_def cumsum_def count_less_def)

text \<open>
  C5, amended. On the counts 10, 8 and 2 with threshold 15 and previous count 2, the
  stability check computes \<^verbatim>\<open>topics_with_rich_content = 1\<close>, answers \<open>False\<close> (not
  stable) and adopts 1 as the new baseline.
\<close>

theorem stopping_condition_example:
  "topics_with_rich_content [(0, 10), (1, 8), (2, 2)] 15 = 1 \<and>
   stopping_condition
     (example_instance\<lparr>topic_summary := Some [(0, 10), (1, 8), (2, 2)],
        rich_content := Some 15, rich_topics := 2\<rparr>) =
     (Inr False,
      example_instance\<lparr>topic_summary := Some [(0, 10), (1, 8), (2, 2)],
        rich_content := Some 15, rich_topics := 1\<rparr>)"
  by (simp add: stopping_condition_def topics_with_rich_content_def sort_desc_def
      cumsum_def count_less_def)

subsection \<open>What the search leaves unchanged\<close>






lemma evaluate_prepare_frame:
  "rich_topics (snd (evaluate_prepare m s)) = rich_topics s \<and>
   previous_nmf (snd (evaluate_prepare m s)) = previous_nmf s \<and>
   start (snd (evaluate_prepare m s)) = start s \<and>
   max_steps (snd (evaluate_prepare m s)) = max_steps s"
  by (simp add: evaluate_prepare_def pareto_corpus_content_def determine_auto_step_size_def Let_def
      split: sum.splits prod.splits param.splits if_splits)

subsection \<open>Unfolding the model on concrete inputs\<close>

lemmas model_defs = evaluate_def evaluate_prepare_def evaluate_fit_def evaluate_stop_def evaluate_step_def
  stopping_condition_def topics_with_rich_content_def sort_desc_def cumsum_def count_less_def
  py_int_def py_round_def arange_def apply_argmax_def argmax_def Counter_def
  pareto_corpus_content_def noise_estimate_def token_count_def determine_auto_step_size_def
  ParetoNMF_init_def Let_def

lemmas example_defs = example_matrix_def example_factorizer_def example_instance_def

subsection \<open>Running out of steps\<close>

text \<open>
  C3 asks for an explicit inconclusive result when the step budget runs out. The code has
  none: with a budget of one step and a first factorization that is not stable, the loop
  ends and \<^verbatim>\<open>evaluate\<close> returns \<^verbatim>\<open>None\<close>, while the last topic count tried
  stays behind in the attribute \<^verbatim>\<open>topic_count\<close>.
\<close>

theorem evaluate_exhausted_returns_None:
  "evaluate example_factorizer example_matrix ([], one_step_instance) =
     (Inr None, ([FitTransform 2],
        one_step_instance\<lparr>rich_topics := 1, corpus_count := Some 5, rich_content := Some 4,
          noise_content := Some 1, topic_count := Some 2,
          nmf := Some \<lparr>n_components = 2, components = Some [[1, 0, 0], [0, 1, 1]]\<rparr>,
          topic_labels := Some [0, 0, 1, 1, 1], topic_summary := Some [(0, 2), (1, 3)],
          previous_nmf := Some \<lparr>n_components = 2, components = Some [[1, 0, 0], [0, 1, 1]]\<rparr>\<rparr>))"
  by (simp add: model_defs example_defs one_step_instance_def)

subsection \<open>The noise estimator on degenerate matrices\<close>

lemma count_less_zeros:
  "\<forall>x \<in> set xs. x = 0 \<Longrightarrow> count_less (cumsum_from 0 xs) 0 = 0"
  by (induction xs) (auto simp: count_less_def)

lemma token_count_zero:
  "\<forall>row \<in> set (rows m). \<forall>x \<in> set row. x = 0 \<Longrightarrow> \<forall>c \<in> set (token_count m). c = 0"
  by (auto simp: token_count_def filter_empty_conv)

lemma sum_list_zeros: "\<forall>x \<in> set xs. x = (0::int) \<Longrightarrow> sum_list xs = 0"
  by (induction xs) auto

lemma noise_estimate_zero:
  assumes "rows m \<noteq> []" and z: "\<forall>row \<in> set (rows m). \<forall>x \<in> set row. x = 0"
  shows "noise_estimate m p = Inr 1"
proof -
  have tc: "\<forall>c \<in> set (token_count m). c = 0" using token_count_zero [OF z] .
  then have st: "\<forall>c \<in> set (sort_desc (token_count m)). c = 0" by (simp add: sort_desc_def)
  from tc have "sum_list (token_count m) = 0" by (rule sum_list_zeros)
  with count_less_zeros [OF st] assms(1) show ?thesis
    by (simp add: noise_estimate_def Let_def py_int_def cumsum_def)
qed

text \<open>
  C7, as the specification states it, fails: on a matrix that has documents but no term
  occurrence nothing is raised; the estimator returns and stores the noise fraction 1.
\<close>

theorem noise_estimator_zero_counterexample:
  "pareto_corpus_content zero_matrix (4 / 5) auto_instance = (Inr (), auto_instance\<lparr>noise_pct := Val 1\<rparr>)"
  by (simp add: model_defs example_defs zero_matrix_def auto_instance_def)

text \<open>
  C7, amended. On a matrix without documents the noise estimator raises the division
  error \<^verbatim>\<open>ZeroDivisionError\<close> and leaves the instance as it was, and so does
  \<^verbatim>\<open>evaluate\<close> when \<^verbatim>\<open>noise_pct\<close> is \<^verbatim>\<open>'auto'\<close>. On a matrix that has
  documents but only zero entries the noise estimator raises nothing: it returns normally
  and stores the noise fraction 1.
\<close>

theorem noise_estimator_degenerate:
  "(rows m = [] \<longrightarrow>
      pareto_corpus_content m p s = (Inl ZeroDivisionError, s) \<and>
      (noise_pct s = Auto \<longrightarrow> evaluate F m (w, s) = (Inl ZeroDivisionError, (w, s)))) \<and>
   (rows m \<noteq> [] \<and> (\<forall>row \<in> set (rows m). \<forall>x \<in> set row. x = 0) \<longrightarrow>
      pareto_corpus_content m p s = (Inr (), s\<lparr>noise_pct := Val 1\<rparr>))"
proof (intro conjI impI)
  assume e: "rows m = []"
  then show pc: "pareto_corpus_content m p s = (Inl ZeroDivisionError, s)"
    by (simp add: pareto_corpus_content_def noise_estimate_def Let_def)
  assume "noise_pct s = Auto"
  with e show "evaluate F m (w, s) = (Inl ZeroDivisionError, (w, s))"
    by (simp add: evaluate_def evaluate_prepare_def pareto_corpus_content_def noise_estimate_def Let_def)
next
  assume "rows m \<noteq> [] \<and> (\<forall>row \<in> set (rows m). \<forall>x \<in> set row. x = 0)"
  then have "noise_estimate m p = Inr 1" using noise_estimate_zero by blast
  then show "pareto_corpus_content m p s = (Inr (), s\<lparr>noise_pct := Val 1\<rparr>)"
    by (simp add: pareto_corpus_content_def)
qed


theorem noise_estimator_degenerate_witness:
  "pareto_corpus_content empty_matrix (4 / 5) auto_instance = (Inl ZeroDivisionError, auto_instance) \<and>
   evaluate example_factorizer empty_matrix ([], auto_instance) = (Inl ZeroDivisionError, ([], auto_instance)) \<and>
   pareto_corpus_content zero_matrix (4 / 5) auto_instance = (Inr (), auto_instance\<lparr>noise_pct := Val 1\<rparr>)"
  using noise_estimator_degenerate [of empty_matrix "4 / 5" auto_instance example_factorizer "[]"]
    noise_estimator_degenerate [of zero_matrix "4 / 5" auto_instance example_factorizer "[]"]
  by (simp add: empty_matrix_def zero_matrix_def auto_instance_def ParetoNMF_init_def)

subsection \<open>The search state across calls\<close>

text \<open>
  C9, as the specification states it, fails: \<^verbatim>\<open>evaluate\<close> does not reset the search
  state. After a first search that returned 2, a second call on the same instance and the
  same matrix starts its loop with \<^verbatim>\<open>rich_topics = 1\<close> and with the
  \<^verbatim>\<open>previous_nmf\<close> of the first search, and returns 1.
\<close>

theorem search_state_carried_over_counterexample:
  "fst (evaluate example_factorizer example_matrix ([], example_instance)) = Inr (Some 2) \<and>
   rich_topics (snd (evaluate_prepare example_matrix
      (snd (snd (evaluate example_factorizer example_matrix ([], example_instance)))))) = 1 \<and>
   previous_nmf (snd (evaluate_prepare example_matrix
      (snd (snd (evaluate example_factorizer example_matrix ([], example_instance)))))) =
     Some \<lparr>n_components = 2, components = Some [[1, 0, 0], [0, 1, 1]]\<rparr> \<and>
   fst (evaluate example_factorizer example_matrix
      (snd (evaluate example_factorizer example_matrix ([], example_instance)))) = Inr (Some 1)"
  by code_simp

text \<open>
  C9, amended. \<^verbatim>\<open>rich_topics\<close> is set to 0, and \<^verbatim>\<open>previous_nmf\<close> is absent, when
  the instance is constructed. \<^verbatim>\<open>evaluate\<close> does not reset them: the loop of a call
  starts from the \<^verbatim>\<open>rich_topics\<close> and the \<^verbatim>\<open>previous_nmf\<close> that the instance had
  when \<^verbatim>\<open>evaluate\<close> was called, so the first call on a new instance starts from 0 and
  no previous factorization, and a later call starts from what the earlier call left.
\<close>

theorem search_state_from_instance:
  "rich_topics (ParetoNMF_init np st sta ms) = 0 \<and>
   previous_nmf (ParetoNMF_init np st sta ms) = None \<and>
   (\<exists>s0. rich_topics s0 = rich_topics s \<and> previous_nmf s0 = previous_nmf s \<and>
      evaluate F m (w, s) =
        (case fst (evaluate_prepare m s) of
           Inl e \<Rightarrow> (Inl e, (w, s0))
         | Inr topic_array \<Rightarrow> evaluate_loop F m topic_array (w, s0)))"
proof -
  let ?s0 = "snd (evaluate_prepare m s)"
  have "evaluate F m (w, s) =
        (case fst (evaluate_prepare m s) of
           Inl e \<Rightarrow> (Inl e, (w, ?s0))
         | Inr topic_array \<Rightarrow> evaluate_loop F m topic_array (w, ?s0))"
    by (simp add: evaluate_def split: prod.splits sum.splits)
  with evaluate_prepare_frame [of m s] show ?thesis
    by (auto simp: ParetoNMF_init_def)
qed

subsection \<open>The \<^verbatim>\<open>'auto'\<close> settings\<close>









subsection \<open>The topic counts that the loop tries\<close>

lemma fit_transform_counts_append:
  "fit_transform_counts (a @ b) = fit_transform_counts a @ fit_transform_counts b"
  by (induction a rule: fit_transform_counts.induct) simp_all









subsection \<open>Stopping\<close>












subsection \<open>The noise estimator\<close>















end
